theory Spec2Isabelle
  imports Complex_Main "HOL-Library.Monad_Syntax"
begin

section \<open>The interaction store (unnamed/part_000, the module imported as store)\<close>

text \<open>
  JavaScript numbers are modelled as reals. The labels are the string literals the
  callers pass; TypeScript's types are erased at run time, so a field of the store holds
  whatever label it is given.
\<close>

datatype gesture = IDLE | POINT | PINCH | TWO | THREE | OPEN

datatype focus = NONE | SATURN | EARTH | MOON

record rotation =
  rot_x :: real
  rot_y :: real

record AppState =
  zoomLevel :: real
  gestureStatus :: gesture
  focusTarget :: focus
  saturnRotation :: rotation

definition MAX_ZOOM :: real where
  "MAX_ZOOM = 1.0"

definition MIN_ZOOM :: real where
  "MIN_ZOOM = - 0.5"

text \<open>The state \<open>create\<close> starts from.\<close>

definition initialState :: AppState where
  "initialState =
     \<lparr>zoomLevel = 0.2, gestureStatus = IDLE, focusTarget = NONE,
      saturnRotation = \<lparr>rot_x = 0, rot_y = 0\<rparr>\<rparr>"

text \<open>
  Each operation is one call of zustand's \<open>set\<close>, which merges the given partial
  state into the current one: a record update. A sum or difference of two levels is the
  exact real here, where the code rounds it to the nearest double.
\<close>

definition setZoomLevel :: "real \<Rightarrow> AppState \<Rightarrow> AppState" where
  "setZoomLevel level s = s\<lparr>zoomLevel := max MIN_ZOOM (min MAX_ZOOM level)\<rparr>"

definition increaseZoom :: "real \<Rightarrow> AppState \<Rightarrow> AppState" where
  "increaseZoom amount s =
     s\<lparr>zoomLevel := max MIN_ZOOM (min MAX_ZOOM (zoomLevel s + amount))\<rparr>"

definition decreaseZoom :: "real \<Rightarrow> AppState \<Rightarrow> AppState" where
  "decreaseZoom amount s =
     s\<lparr>zoomLevel := max MIN_ZOOM (min MAX_ZOOM (zoomLevel s - amount))\<rparr>"

definition setGestureStatus :: "gesture \<Rightarrow> AppState \<Rightarrow> AppState" where
  "setGestureStatus status s = s\<lparr>gestureStatus := status\<rparr>"

definition setFocusTarget :: "focus \<Rightarrow> AppState \<Rightarrow> AppState" where
  "setFocusTarget target s = s\<lparr>focusTarget := target\<rparr>"

definition setSaturnRotation :: "real \<Rightarrow> real \<Rightarrow> AppState \<Rightarrow> AppState" where
  "setSaturnRotation x y s = s\<lparr>saturnRotation := \<lparr>rot_x = x, rot_y = y\<rparr>\<rparr>"

text \<open>The three zoom mutations as data, and a sequence of them run from left to right.\<close>

datatype zoom_mutation = SetZoomLevel real | IncreaseZoom real | DecreaseZoom real

fun apply_zoom :: "zoom_mutation \<Rightarrow> AppState \<Rightarrow> AppState" where
  "apply_zoom (SetZoomLevel level) s = setZoomLevel level s"
| "apply_zoom (IncreaseZoom amount) s = increaseZoom amount s"
| "apply_zoom (DecreaseZoom amount) s = decreaseZoom amount s"

fun run_zoom :: "zoom_mutation list \<Rightarrow> AppState \<Rightarrow> AppState" where
  "run_zoom [] s = s"
| "run_zoom (m # ms) s = run_zoom ms (apply_zoom m s)"

definition in_zoom_range :: "real \<Rightarrow> bool" where
  "in_zoom_range z = (MIN_ZOOM \<le> z \<and> z \<le> MAX_ZOOM)"

section \<open>The hand tracker (components/HandTracker.tsx and its second version)\<close>

text \<open>
  A landmark is a point with normalized screen coordinates; its depth is never read.
  A hand is the array of its landmarks, and the detector's result is the array of hands,
  which may be missing.
\<close>

record landmark =
  lm_x :: real
  lm_y :: real

text \<open>
  Indexing an array out of range yields \<open>undefined\<close> (here \<open>None\<close>) and does not
  raise; reading a coordinate of \<open>undefined\<close> raises a TypeError. A computation
  that raises has the value \<open>None\<close>.
\<close>

definition js_index :: "'a list \<Rightarrow> nat \<Rightarrow> 'a option" where
  "js_index xs i = (if i < length xs then Some (xs ! i) else None)"

definition get_x :: "landmark option \<Rightarrow> real option" where
  "get_x p = (case p of None \<Rightarrow> None | Some q \<Rightarrow> Some (lm_x q))"

definition get_y :: "landmark option \<Rightarrow> real option" where
  "get_y p = (case p of None \<Rightarrow> None | Some q \<Rightarrow> Some (lm_y q))"

definition getDistance :: "landmark option \<Rightarrow> landmark option \<Rightarrow> real option" where
  "getDistance p1 p2 =
     do {
       x1 \<leftarrow> get_x p1;
       x2 \<leftarrow> get_x p2;
       y1 \<leftarrow> get_y p1;
       y2 \<leftarrow> get_y p2;
       Some (sqrt ((x1 - x2)\<^sup>2 + (y1 - y2)\<^sup>2))
     }"

text \<open>The comparisons \<open>a.y < b.y\<close> and \<open>a.y > b.y\<close> of two landmarks read from the array.\<close>

definition y_less :: "landmark option \<Rightarrow> landmark option \<Rightarrow> bool option" where
  "y_less a b = do { ya \<leftarrow> get_y a; yb \<leftarrow> get_y b; Some (ya < yb) }"

definition y_greater :: "landmark option \<Rightarrow> landmark option \<Rightarrow> bool option" where
  "y_greater a b = do { ya \<leftarrow> get_y a; yb \<leftarrow> get_y b; Some (ya > yb) }"

text \<open>
  \<open>predictWebcam\<close> of components/HandTracker.tsx, from the detector's result on: the
  gesture logic and the store calls it makes, in the order it makes them. The drawing on
  the canvas is left out.
\<close>

definition predictWebcam :: "landmark list list option \<Rightarrow> AppState \<Rightarrow> AppState option" where
  "predictWebcam results_landmarks s =
     (case results_landmarks of
        Some (landmarks # others) \<Rightarrow>
          (let thumbTip = js_index landmarks 4;
               indexTip = js_index landmarks 8;
               indexPip = js_index landmarks 6;
               middleTip = js_index landmarks 12;
               middlePip = js_index landmarks 10;
               ringTip = js_index landmarks 16;
               ringPip = js_index landmarks 14;
               pinkyTip = js_index landmarks 20;
               pinkyPip = js_index landmarks 18
           in do {
             pinchDist \<leftarrow> getDistance thumbTip indexTip;
             let PINCH_THRESHOLD = 0.05;
             isIndexExtended \<leftarrow> y_less indexTip indexPip;
             isMiddleExtended \<leftarrow> y_less middleTip middlePip;
             isRingExtended \<leftarrow> y_less ringTip ringPip;
             isPinkyExtended \<leftarrow> y_less pinkyTip pinkyPip;
             isMiddleCurled \<leftarrow> y_greater middleTip middlePip;
             isRingCurled \<leftarrow> y_greater ringTip ringPip;
             isPinkyCurled \<leftarrow> y_greater pinkyTip pinkyPip;
             let isThree = (isIndexExtended \<and> isMiddleExtended \<and> isRingExtended \<and> isPinkyCurled);
             let isTwo = (isIndexExtended \<and> isMiddleExtended \<and> isRingCurled \<and> isPinkyCurled);
             let isPointing = (isIndexExtended \<and> isMiddleCurled \<and> isRingCurled \<and> isPinkyCurled);
             let isOpenHand =
               (isIndexExtended \<and> isMiddleExtended \<and> isRingExtended \<and> isPinkyExtended);
             if isThree then
               Some (setGestureStatus THREE (setFocusTarget MOON s))
             else if isTwo then
               Some (setGestureStatus TWO (setFocusTarget EARTH s))
             else if isPointing then
               do {
                 ix \<leftarrow> get_x indexTip;
                 let rotY = (ix - 0.5) * 4.0;
                 iy \<leftarrow> get_y indexTip;
                 let rotX = (iy - 0.5) * 4.0;
                 Some (setGestureStatus POINT
                        (setSaturnRotation rotX rotY (setFocusTarget SATURN s)))
               }
             else if isOpenHand then
               Some (setGestureStatus OPEN (increaseZoom 0.015 s))
             else if pinchDist < PINCH_THRESHOLD then
               Some (setGestureStatus PINCH (decreaseZoom 0.015 (setFocusTarget NONE s)))
             else
               Some (setGestureStatus IDLE s)
           })
      | _ \<Rightarrow> Some (setGestureStatus IDLE s))"

text \<open>
  The second version of the component (unnamed/part_002) tests a finger by its distance
  from the wrist: \<open>isExtended\<close> is its local helper, closed over the landmarks.
\<close>

definition isExtended :: "landmark list \<Rightarrow> nat \<Rightarrow> nat \<Rightarrow> bool option" where
  "isExtended landmarks tipIdx pipIdx =
     (let wrist = js_index landmarks 0;
          tip = js_index landmarks tipIdx;
          pip = js_index landmarks pipIdx
      in do {
        tx \<leftarrow> get_x tip;
        wx \<leftarrow> get_x wrist;
        ty \<leftarrow> get_y tip;
        wy \<leftarrow> get_y wrist;
        let dTip = (tx - wx)\<^sup>2 + (ty - wy)\<^sup>2;
        px \<leftarrow> get_x pip;
        py \<leftarrow> get_y pip;
        let dPip = (px - wx)\<^sup>2 + (py - wy)\<^sup>2;
        Some (dTip > dPip * 1.1)
      })"

definition predictWebcam_part_002 ::
    "landmark list list option \<Rightarrow> AppState \<Rightarrow> AppState option" where
  "predictWebcam_part_002 results_landmarks s =
     (case results_landmarks of
        Some (landmarks # others) \<Rightarrow>
          (let thumbTip = js_index landmarks 4;
               indexTip = js_index landmarks 8
           in do {
             indexOpen \<leftarrow> isExtended landmarks 8 6;
             middleOpen \<leftarrow> isExtended landmarks 12 10;
             ringOpen \<leftarrow> isExtended landmarks 16 14;
             pinkyOpen \<leftarrow> isExtended landmarks 20 18;
             pinchDist \<leftarrow> getDistance thumbTip indexTip;
             let isPinch = (pinchDist < 0.05);
             if indexOpen \<and> middleOpen \<and> ringOpen \<and> \<not> pinkyOpen then
               Some (setGestureStatus THREE (setFocusTarget MOON s))
             else if indexOpen \<and> middleOpen \<and> \<not> ringOpen \<and> \<not> pinkyOpen then
               Some (setGestureStatus TWO (setFocusTarget EARTH s))
             else if indexOpen \<and> \<not> middleOpen \<and> \<not> ringOpen \<and> \<not> pinkyOpen then
               do {
                 ix \<leftarrow> get_x indexTip;
                 let rotY = (ix - 0.5) * 4.0;
                 iy \<leftarrow> get_y indexTip;
                 let rotX = (iy - 0.5) * 4.0;
                 Some (setGestureStatus POINT
                        (setSaturnRotation rotX rotY (setFocusTarget SATURN s)))
               }
             else if indexOpen \<and> middleOpen \<and> ringOpen \<and> pinkyOpen then
               Some (setGestureStatus OPEN (increaseZoom 0.015 s))
             else if isPinch then
               Some (setGestureStatus PINCH (decreaseZoom 0.015 (setFocusTarget NONE s)))
             else
               Some (setGestureStatus IDLE s)
           })
      | _ \<Rightarrow> Some (setGestureStatus IDLE s))"

text \<open>
  The geometry of a hand with all its landmarks, as the two versions test it: a fingertip
  above or below its PIP joint on the screen (y grows downwards), a fingertip more than
  10% further (in squared distance) from the wrist than its PIP joint, and the distance
  between the thumb tip and the index tip.
\<close>

definition tip_above :: "landmark list \<Rightarrow> nat \<Rightarrow> nat \<Rightarrow> bool" where
  "tip_above lm tip pip = (lm_y (lm ! tip) < lm_y (lm ! pip))"

definition tip_below :: "landmark list \<Rightarrow> nat \<Rightarrow> nat \<Rightarrow> bool" where
  "tip_below lm tip pip = (lm_y (lm ! tip) > lm_y (lm ! pip))"

definition wrist_dist2 :: "landmark list \<Rightarrow> nat \<Rightarrow> real" where
  "wrist_dist2 lm i = (lm_x (lm ! i) - lm_x (lm ! 0))\<^sup>2 + (lm_y (lm ! i) - lm_y (lm ! 0))\<^sup>2"

definition tip_further :: "landmark list \<Rightarrow> nat \<Rightarrow> nat \<Rightarrow> bool" where
  "tip_further lm tip pip = (wrist_dist2 lm tip > wrist_dist2 lm pip * 1.1)"

definition pinch_dist :: "landmark list \<Rightarrow> real" where
  "pinch_dist lm = sqrt ((lm_x (lm ! 4) - lm_x (lm ! 8))\<^sup>2 + (lm_y (lm ! 4) - lm_y (lm ! 8))\<^sup>2)"

text \<open>
  The finger shapes of components/HandTracker.tsx (its \<open>isThree\<close>, \<open>isTwo\<close>,
  \<open>isPointing\<close> and \<open>isOpenHand\<close>): a finger counts as up when its tip is above its
  PIP joint and as down when its tip is below it.
\<close>

definition three_shape :: "landmark list \<Rightarrow> bool" where
  "three_shape lm =
     (tip_above lm 8 6 \<and> tip_above lm 12 10 \<and> tip_above lm 16 14 \<and> tip_below lm 20 18)"

definition two_shape :: "landmark list \<Rightarrow> bool" where
  "two_shape lm =
     (tip_above lm 8 6 \<and> tip_above lm 12 10 \<and> tip_below lm 16 14 \<and> tip_below lm 20 18)"

definition point_shape :: "landmark list \<Rightarrow> bool" where
  "point_shape lm =
     (tip_above lm 8 6 \<and> tip_below lm 12 10 \<and> tip_below lm 16 14 \<and> tip_below lm 20 18)"

definition open_shape :: "landmark list \<Rightarrow> bool" where
  "open_shape lm =
     (tip_above lm 8 6 \<and> tip_above lm 12 10 \<and> tip_above lm 16 14 \<and> tip_above lm 20 18)"

text \<open>
  The finger shapes of the second version (unnamed/part_002), the conditions of its
  chain of tests: a finger is open when \<open>isExtended\<close> holds of it, and not open otherwise.
\<close>

definition three_shape_002 :: "landmark list \<Rightarrow> bool" where
  "three_shape_002 lm =
     (tip_further lm 8 6 \<and> tip_further lm 12 10 \<and> tip_further lm 16 14
      \<and> \<not> tip_further lm 20 18)"

definition two_shape_002 :: "landmark list \<Rightarrow> bool" where
  "two_shape_002 lm =
     (tip_further lm 8 6 \<and> tip_further lm 12 10 \<and> \<not> tip_further lm 16 14
      \<and> \<not> tip_further lm 20 18)"

definition point_shape_002 :: "landmark list \<Rightarrow> bool" where
  "point_shape_002 lm =
     (tip_further lm 8 6 \<and> \<not> tip_further lm 12 10 \<and> \<not> tip_further lm 16 14
      \<and> \<not> tip_further lm 20 18)"

definition open_shape_002 :: "landmark list \<Rightarrow> bool" where
  "open_shape_002 lm =
     (tip_further lm 8 6 \<and> tip_further lm 12 10 \<and> tip_further lm 16 14
      \<and> tip_further lm 20 18)"

text \<open>The pointing direction: the index tip's offset from the frame centre, times 4.\<close>

definition point_update :: "landmark list \<Rightarrow> AppState \<Rightarrow> AppState" where
  "point_update lm s =
     setGestureStatus POINT
       (setSaturnRotation ((lm_y (lm ! 8) - 0.5) * 4.0) ((lm_x (lm ! 8) - 0.5) * 4.0)
         (setFocusTarget SATURN s))"

section \<open>The camera logic of components/SolarSystem.tsx\<close>

record vec3 =
  vx :: real
  vy :: real
  vz :: real

definition Vector3_add :: "vec3 \<Rightarrow> vec3 \<Rightarrow> vec3" where
  "Vector3_add a b = \<lparr>vx = vx a + vx b, vy = vy a + vy b, vz = vz a + vz b\<rparr>"

text \<open>
  Modelled from the spec: three.js is not among the repository's files, so its
  \<open>Vector3.lerp\<close> is taken as the spec's smoothing step,
  \<open>actual += (target - actual) * alpha\<close>, on each component.
\<close>

definition Vector3_lerp :: "vec3 \<Rightarrow> vec3 \<Rightarrow> real \<Rightarrow> vec3" where
  "Vector3_lerp a v alpha =
     \<lparr>vx = vx a + (vx v - vx a) * alpha,
      vy = vy a + (vy v - vy a) * alpha,
      vz = vz a + (vz v - vz a) * alpha\<rparr>"

text \<open>
  Modelled from the spec: three.js's \<open>MathUtils.lerp\<close>, the linear interpolation
  that is \<open>x\<close> at 0 and \<open>y\<close> at 1.
\<close>

definition MathUtils_lerp :: "real \<Rightarrow> real \<Rightarrow> real \<Rightarrow> real" where
  "MathUtils_lerp x y t = x + (y - x) * t"

text \<open>
  What the frame callback reads of the camera: its position, and its viewing direction
  \<open>forward\<close>, the value of \<open>new Vector3(0,0,-1).applyQuaternion(camera.quaternion)\<close>.
  The store's \<open>focusTarget\<close> and \<open>zoomLevel\<close> are the callback's first two
  arguments here, the clock's elapsed time the third. What it does to the camera: it moves the position to \<open>new_position\<close> and calls
  \<open>camera.lookAt\<close> on \<open>lookAt_point\<close>.
\<close>

record camera =
  position :: vec3
  forward :: vec3

record camera_step =
  new_position :: vec3
  lookAt_point :: vec3

definition useFrame_camera :: "focus \<Rightarrow> real \<Rightarrow> real \<Rightarrow> camera \<Rightarrow> camera_step" where
  "useFrame_camera focus_target zoom_level time cam =
     (if focus_target = SATURN then
        (let angle = time * 0.4 * 0.2 + 5;
             dist = 42;
             saturnX = cos angle * dist;
             saturnZ = - sin angle * dist;
             targetPos = \<lparr>vx = saturnX + 5, vy = 4, vz = saturnZ + 9\<rparr>;
             lookAtPos = \<lparr>vx = saturnX, vy = 0, vz = saturnZ\<rparr>
         in \<lparr>new_position = Vector3_lerp (position cam) targetPos 0.05,
             lookAt_point = lookAtPos\<rparr>)
      else if focus_target = EARTH then
        (let angle = time * 1.0 * 0.2 + 2;
             dist = 18;
             earthX = cos angle * dist;
             earthZ = - sin angle * dist;
             targetPos = \<lparr>vx = earthX + 2, vy = 1, vz = earthZ + 4\<rparr>;
             lookAtPos = \<lparr>vx = earthX, vy = 0, vz = earthZ\<rparr>
         in \<lparr>new_position = Vector3_lerp (position cam) targetPos 0.05,
             lookAt_point = lookAtPos\<rparr>)
      else if focus_target = MOON then
        (let earthAngle = time * 1.0 * 0.2 + 2;
             earthDist = 18;
             earthX = cos earthAngle * earthDist;
             earthZ = - sin earthAngle * earthDist;
             moonAngle = time * 0.5;
             moonDist = 3.5;
             moonX = cos moonAngle * moonDist;
             moonZ = - sin moonAngle * moonDist;
             absMoonX = earthX + moonX;
             absMoonZ = earthZ + moonZ;
             targetPos = \<lparr>vx = absMoonX + 1, vy = 0.5, vz = absMoonZ + 2\<rparr>;
             lookAtPos = \<lparr>vx = absMoonX, vy = 0, vz = absMoonZ\<rparr>
         in \<lparr>new_position = Vector3_lerp (position cam) targetPos 0.05,
             lookAt_point = lookAtPos\<rparr>)
      else
        (let zPos = (if zoom_level < 0 then 60 + (\<bar>zoom_level\<bar> / 0.5) * 30
                     else MathUtils_lerp 60 4 zoom_level);
             targetPos = \<lparr>vx = 0, vy = 20, vz = zPos\<rparr>;
             newPos = Vector3_lerp (position cam) targetPos 0.05;
             currentLookAt = Vector3_add (forward cam) newPos;
             targetLookAt = \<lparr>vx = 0, vy = 0, vz = 0\<rparr>;
             lerpedLookAt = Vector3_lerp currentLookAt targetLookAt 0.05
         in \<lparr>new_position = newPos, lookAt_point = lerpedLookAt\<rparr>))"

text \<open>
  A circular orbit in the horizontal plane, the shape every body's position has in the
  callback: \<open>(cos angle * radius, 0, - sin angle * radius)\<close>.
\<close>

definition orbit :: "real \<Rightarrow> real \<Rightarrow> vec3" where
  "orbit angle radius = \<lparr>vx = cos angle * radius, vy = 0, vz = - sin angle * radius\<rparr>"

section \<open>Concrete inputs\<close>

definition pt :: "real \<Rightarrow> real \<Rightarrow> landmark" where
  "pt a b = \<lparr>lm_x = a, lm_y = b\<rparr>"

text \<open>
  A hand of 21 landmarks with the wrist at the bottom of the frame and every other
  landmark at the centre; the hands below move fingertips up (extended) or down (curled).
\<close>

definition rest_hand :: "landmark list" where
  "rest_hand = (replicate 21 (pt 0.5 0.5))[0 := pt 0.5 1.0]"

definition three_hand :: "landmark list" where
  "three_hand = rest_hand[8 := pt 0.5 0.2, 12 := pt 0.5 0.2, 16 := pt 0.5 0.2, 20 := pt 0.5 0.7]"

definition point_pinch_hand :: "landmark list" where
  "point_pinch_hand =
     rest_hand[4 := pt 0.5 0.2, 8 := pt 0.5 0.2, 12 := pt 0.5 0.7, 16 := pt 0.5 0.7,
       20 := pt 0.5 0.7]"

text \<open>As \<open>point_pinch_hand\<close>, but the middle fingertip is level with its PIP joint.\<close>

definition level_middle_hand :: "landmark list" where
  "level_middle_hand =
     rest_hand[4 := pt 0.5 0.2, 8 := pt 0.5 0.2, 16 := pt 0.5 0.7, 20 := pt 0.5 0.7]"

definition open_hand :: "landmark list" where
  "open_hand = rest_hand[8 := pt 0.5 0.2, 12 := pt 0.5 0.2, 16 := pt 0.5 0.2, 20 := pt 0.5 0.2]"

text \<open>A hand cut off after 20 landmarks: the pinky tip (index 20) is missing.\<close>

definition short_hand :: "landmark list" where
  "short_hand = replicate 20 (pt 0.5 0.5)"


definition cam0 :: camera where
  "cam0 = \<lparr>position = \<lparr>vx = 0, vy = 20, vz = 60\<rparr>, forward = \<lparr>vx = 0, vy = 0, vz = - 1\<rparr>\<rparr>"

section \<open>Properties of the store\<close>

lemma apply_zoom_in_range: "in_zoom_range (zoomLevel (apply_zoom m s))"
  by (cases m)
    (simp_all add: in_zoom_range_def setZoomLevel_def increaseZoom_def decreaseZoom_def
      MIN_ZOOM_def MAX_ZOOM_def)

lemma run_zoom_in_range:
  "in_zoom_range (zoomLevel s) \<Longrightarrow> in_zoom_range (zoomLevel (run_zoom ms s))"
  by (induction ms arbitrary: s) (simp_all add: apply_zoom_in_range)

lemma increaseZoom_step:
  "zoomLevel (increaseZoom a s) = max MIN_ZOOM (min MAX_ZOOM (zoomLevel s + a))"
  by (simp add: increaseZoom_def)

lemma decreaseZoom_step:
  "zoomLevel (decreaseZoom a s) = max MIN_ZOOM (min MAX_ZOOM (zoomLevel s - a))"
  by (simp add: decreaseZoom_def)

lemma increaseZoom_funpow_in_range:
  "in_zoom_range (zoomLevel s) \<Longrightarrow> in_zoom_range (zoomLevel ((increaseZoom a ^^ n) s))"
  by (induction n)
    (simp_all add: increaseZoom_step in_zoom_range_def MIN_ZOOM_def MAX_ZOOM_def)

lemma decreaseZoom_funpow_in_range:
  "in_zoom_range (zoomLevel s) \<Longrightarrow> in_zoom_range (zoomLevel ((decreaseZoom a ^^ n) s))"
  by (induction n)
    (simp_all add: decreaseZoom_step in_zoom_range_def MIN_ZOOM_def MAX_ZOOM_def)

text \<open>One call with a non-negative amount moves the level toward its bound, never away.\<close>

lemma increaseZoom_not_lower:
  assumes "in_zoom_range (zoomLevel s)" and "0 \<le> a"
  shows "zoomLevel s \<le> zoomLevel (increaseZoom a s)"
  using assms
  by (simp add: increaseZoom_step in_zoom_range_def MIN_ZOOM_def MAX_ZOOM_def min_def max_def)

lemma decreaseZoom_not_higher:
  assumes "in_zoom_range (zoomLevel s)" and "0 \<le> a"
  shows "zoomLevel (decreaseZoom a s) \<le> zoomLevel s"
  using assms
  by (simp add: decreaseZoom_step in_zoom_range_def MIN_ZOOM_def MAX_ZOOM_def min_def max_def)

text \<open>
  Once a sum reaches the bound, the call returns the bound itself, and so does every
  further call.
\<close>

lemma increaseZoom_stays_at_max:
  assumes "0 \<le> a" and "MAX_ZOOM \<le> zoomLevel s + a"
  shows "zoomLevel ((increaseZoom a ^^ Suc m) s) = MAX_ZOOM"
proof (induction m)
  case 0
  from assms(2) show ?case
    by (simp add: increaseZoom_step MIN_ZOOM_def MAX_ZOOM_def)
next
  case (Suc m)
  have "zoomLevel ((increaseZoom a ^^ Suc (Suc m)) s)
      = max MIN_ZOOM (min MAX_ZOOM (MAX_ZOOM + a))"
    using Suc.IH by (simp add: increaseZoom_step)
  also have "\<dots> = MAX_ZOOM"
    using assms(1) by (simp add: MIN_ZOOM_def MAX_ZOOM_def)
  finally show ?case .
qed

lemma decreaseZoom_stays_at_min:
  assumes "0 \<le> a" and "zoomLevel s - a \<le> MIN_ZOOM"
  shows "zoomLevel ((decreaseZoom a ^^ Suc m) s) = MIN_ZOOM"
proof (induction m)
  case 0
  from assms(2) show ?case
    by (simp add: decreaseZoom_step MIN_ZOOM_def MAX_ZOOM_def)
next
  case (Suc m)
  have "zoomLevel ((decreaseZoom a ^^ Suc (Suc m)) s)
      = max MIN_ZOOM (min MAX_ZOOM (MIN_ZOOM - a))"
    using Suc.IH by (simp add: decreaseZoom_step)
  also have "\<dots> = MIN_ZOOM"
    using assms(1) by (simp add: MIN_ZOOM_def MAX_ZOOM_def)
  finally show ?case .
qed

text \<open>
  The scenario: after 53 calls the level is at least 0.99, so the 54th sum reaches 1.0 and
  the clamp returns 1.0, then and in the six calls that follow.
\<close>

lemma sixty_increases: "zoomLevel ((increaseZoom 0.015 ^^ 60) initialState) = 1.0"
proof -
  have at53: "0.99 \<le> zoomLevel ((increaseZoom 0.015 ^^ 53) initialState)"
    by (simp add: eval_nat_numeral increaseZoom_def initialState_def MIN_ZOOM_def MAX_ZOOM_def)
  have sum54: "MAX_ZOOM \<le> zoomLevel ((increaseZoom 0.015 ^^ 53) initialState) + 0.015"
    using at53 by (simp add: MAX_ZOOM_def)
  have "zoomLevel ((increaseZoom 0.015 ^^ Suc 6) ((increaseZoom 0.015 ^^ 53) initialState))
      = MAX_ZOOM"
    by (rule increaseZoom_stays_at_max [OF _ sum54]) simp
  moreover have "(increaseZoom 0.015 ^^ Suc 6) ((increaseZoom 0.015 ^^ 53) initialState)
      = (increaseZoom 0.015 ^^ 60) initialState"
    using funpow_add [of "Suc 6" 53 "increaseZoom 0.015"]
    by (simp del: funpow.simps)
  ultimately show ?thesis by (simp add: MAX_ZOOM_def)
qed

text \<open>
  Claim C1. Every sequence of zoom mutations (setZoomLevel, increaseZoom, decreaseZoom)
  run from a state whose zoomLevel lies in [MIN_ZOOM, MAX_ZOOM] = [-0.5, 1.0] ends with
  zoomLevel in that interval; so does every number of repeated increaseZoom or
  decreaseZoom calls, whatever the amount. Repeated calls with a non-negative amount
  saturate: each increaseZoom leaves the level where it was or higher and never above
  1.0, and from the first call whose sum reaches 1.0 the level is exactly 1.0 and stays
  there; each decreaseZoom leaves it where it was or lower and never below -0.5, and
  from the first call whose difference reaches -0.5 the level is exactly -0.5 and stays
  there. From the default level 0.2, sixty calls of increaseZoom(0.015) end at exactly
  1.0.
\<close>

theorem zoom_mutations_clamped_and_saturating:
  assumes "in_zoom_range (zoomLevel s)"
  shows "in_zoom_range (zoomLevel (run_zoom ms s))
    \<and> in_zoom_range (zoomLevel ((increaseZoom a ^^ n) s))
    \<and> in_zoom_range (zoomLevel ((decreaseZoom a ^^ n) s))
    \<and> (0 \<le> a \<longrightarrow>
          zoomLevel ((increaseZoom a ^^ n) s) \<le> zoomLevel ((increaseZoom a ^^ Suc n) s))
    \<and> (0 \<le> a \<longrightarrow>
          zoomLevel ((decreaseZoom a ^^ Suc n) s) \<le> zoomLevel ((decreaseZoom a ^^ n) s))
    \<and> (0 \<le> a \<and> MAX_ZOOM \<le> zoomLevel ((increaseZoom a ^^ n) s) + a \<longrightarrow>
          zoomLevel ((increaseZoom a ^^ (Suc m + n)) s) = MAX_ZOOM)
    \<and> (0 \<le> a \<and> zoomLevel ((decreaseZoom a ^^ n) s) - a \<le> MIN_ZOOM \<longrightarrow>
          zoomLevel ((decreaseZoom a ^^ (Suc m + n)) s) = MIN_ZOOM)
    \<and> zoomLevel ((increaseZoom 0.015 ^^ 60) initialState) = 1.0
    \<and> MIN_ZOOM = - 0.5 \<and> MAX_ZOOM = 1.0"
proof -
  have up: "in_zoom_range (zoomLevel ((increaseZoom a ^^ n) s))"
    and down: "in_zoom_range (zoomLevel ((decreaseZoom a ^^ n) s))"
    using assms by (rule increaseZoom_funpow_in_range, rule decreaseZoom_funpow_in_range)
  have mono_up: "zoomLevel ((increaseZoom a ^^ n) s) \<le> zoomLevel ((increaseZoom a ^^ Suc n) s)"
    if "0 \<le> a"
    using increaseZoom_not_lower [OF up that] by simp
  have mono_down: "zoomLevel ((decreaseZoom a ^^ Suc n) s) \<le> zoomLevel ((decreaseZoom a ^^ n) s)"
    if "0 \<le> a"
    using decreaseZoom_not_higher [OF down that] by simp
  have split_up: "(increaseZoom a ^^ (Suc m + n)) s
      = (increaseZoom a ^^ Suc m) ((increaseZoom a ^^ n) s)"
    and split_down: "(decreaseZoom a ^^ (Suc m + n)) s
      = (decreaseZoom a ^^ Suc m) ((decreaseZoom a ^^ n) s)"
    by (simp_all only: funpow_add o_apply)
  have sat_up: "zoomLevel ((increaseZoom a ^^ (Suc m + n)) s) = MAX_ZOOM"
    if "0 \<le> a" "MAX_ZOOM \<le> zoomLevel ((increaseZoom a ^^ n) s) + a"
    unfolding split_up using that by (rule increaseZoom_stays_at_max)
  have sat_down: "zoomLevel ((decreaseZoom a ^^ (Suc m + n)) s) = MIN_ZOOM"
    if "0 \<le> a" "zoomLevel ((decreaseZoom a ^^ n) s) - a \<le> MIN_ZOOM"
    unfolding split_down using that by (rule decreaseZoom_stays_at_min)
  have bounds: "MIN_ZOOM = - 0.5" "MAX_ZOOM = 1.0"
    by (simp_all add: MIN_ZOOM_def MAX_ZOOM_def)
  show ?thesis
    using run_zoom_in_range [OF assms, of ms] up down mono_up mono_down sat_up sat_down
      sixty_increases bounds
    by blast
qed

theorem zoom_mutations_clamped_and_saturating_witness:
  "in_zoom_range (zoomLevel initialState)
   \<and> in_zoom_range
       (zoomLevel (run_zoom [IncreaseZoom 2, DecreaseZoom 5, SetZoomLevel 0.3] initialState))
   \<and> (0::real) \<le> 0.5
   \<and> MAX_ZOOM \<le> zoomLevel ((increaseZoom 0.5 ^^ 1) initialState) + 0.5
   \<and> zoomLevel ((increaseZoom 0.5 ^^ (Suc 3 + 1)) initialState) = MAX_ZOOM
   \<and> zoomLevel ((decreaseZoom 0.5 ^^ 1) initialState) - 0.5 \<le> MIN_ZOOM
   \<and> zoomLevel ((decreaseZoom 0.5 ^^ (Suc 3 + 1)) initialState) = MIN_ZOOM
   \<and> zoomLevel ((increaseZoom 0.5 ^^ 1) initialState)
       \<le> zoomLevel ((increaseZoom 0.5 ^^ Suc 1) initialState)"
proof -
  have init: "in_zoom_range (zoomLevel initialState)"
    by (simp add: initialState_def in_zoom_range_def MIN_ZOOM_def MAX_ZOOM_def)
  have a: "(0::real) \<le> 0.5" by simp
  have up1: "MAX_ZOOM \<le> zoomLevel ((increaseZoom 0.5 ^^ 1) initialState) + 0.5"
    by (simp add: increaseZoom_def initialState_def MIN_ZOOM_def MAX_ZOOM_def)
  have down1: "zoomLevel ((decreaseZoom 0.5 ^^ 1) initialState) - 0.5 \<le> MIN_ZOOM"
    by (simp add: decreaseZoom_def initialState_def MIN_ZOOM_def MAX_ZOOM_def)
  show ?thesis
    using init a up1 down1
      zoom_mutations_clamped_and_saturating
        [OF init, where ms = "[IncreaseZoom 2, DecreaseZoom 5, SetZoomLevel 0.3]"
          and a = "0.5" and n = 1 and m = 3]
    by blast
qed

text \<open>
  Claim C9. Each of the six store operations writes one field and leaves the other
  three as they were: setZoomLevel, increaseZoom and decreaseZoom write zoomLevel only,
  setGestureStatus writes gestureStatus only, setFocusTarget writes focusTarget only, and
  setSaturnRotation writes saturnRotation only. An operation is a single state
  transformer, so a reader sees the state before it or the state after it.
\<close>

theorem store_operations_write_one_field:
  "(gestureStatus (setZoomLevel l s) = gestureStatus s
      \<and> focusTarget (setZoomLevel l s) = focusTarget s
      \<and> saturnRotation (setZoomLevel l s) = saturnRotation s
      \<and> zoomLevel (setZoomLevel l s) = max MIN_ZOOM (min MAX_ZOOM l))
   \<and> (gestureStatus (increaseZoom a s) = gestureStatus s
      \<and> focusTarget (increaseZoom a s) = focusTarget s
      \<and> saturnRotation (increaseZoom a s) = saturnRotation s
      \<and> zoomLevel (increaseZoom a s) = max MIN_ZOOM (min MAX_ZOOM (zoomLevel s + a)))
   \<and> (gestureStatus (decreaseZoom a s) = gestureStatus s
      \<and> focusTarget (decreaseZoom a s) = focusTarget s
      \<and> saturnRotation (decreaseZoom a s) = saturnRotation s
      \<and> zoomLevel (decreaseZoom a s) = max MIN_ZOOM (min MAX_ZOOM (zoomLevel s - a)))
   \<and> (zoomLevel (setGestureStatus g s) = zoomLevel s
      \<and> focusTarget (setGestureStatus g s) = focusTarget s
      \<and> saturnRotation (setGestureStatus g s) = saturnRotation s
      \<and> gestureStatus (setGestureStatus g s) = g)
   \<and> (zoomLevel (setFocusTarget t s) = zoomLevel s
      \<and> gestureStatus (setFocusTarget t s) = gestureStatus s
      \<and> saturnRotation (setFocusTarget t s) = saturnRotation s
      \<and> focusTarget (setFocusTarget t s) = t)
   \<and> (zoomLevel (setSaturnRotation x y s) = zoomLevel s
      \<and> gestureStatus (setSaturnRotation x y s) = gestureStatus s
      \<and> focusTarget (setSaturnRotation x y s) = focusTarget s
      \<and> saturnRotation (setSaturnRotation x y s) = \<lparr>rot_x = x, rot_y = y\<rparr>)"
  by (simp add: setZoomLevel_def increaseZoom_def decreaseZoom_def setGestureStatus_def
      setFocusTarget_def setSaturnRotation_def)

text \<open>
  Claim C10. For every state and every real amount a, decreaseZoom(a) gives the same
  state as increaseZoom(-a): zoomLevel becomes the current level minus a, clamped to
  [MIN_ZOOM, MAX_ZOOM], and no other field changes.
\<close>

theorem decreaseZoom_is_increaseZoom_negated:
  "decreaseZoom a s = increaseZoom (- a) s
   \<and> zoomLevel (decreaseZoom a s) = max MIN_ZOOM (min MAX_ZOOM (zoomLevel s - a))
   \<and> gestureStatus (decreaseZoom a s) = gestureStatus s
   \<and> focusTarget (decreaseZoom a s) = focusTarget s
   \<and> saturnRotation (decreaseZoom a s) = saturnRotation s"
  by (simp add: decreaseZoom_def increaseZoom_def)

section \<open>Properties of the hand tracker\<close>

lemma js_index_Some: "i < length xs \<Longrightarrow> js_index xs i = Some (xs ! i)"
  by (simp add: js_index_def)

lemma js_index_None: "length xs \<le> i \<Longrightarrow> js_index xs i = None"
  by (simp add: js_index_def)

lemma y_less_None [simp]: "y_less None b = None" "y_less a None = None"
  by (simp_all add: y_less_def get_y_def split: option.splits)

lemma y_less_Some [simp]: "y_less (Some a) (Some b) = Some (lm_y a < lm_y b)"
  by (simp add: y_less_def get_y_def)

lemma y_greater_Some [simp]: "y_greater (Some a) (Some b) = Some (lm_y a > lm_y b)"
  by (simp add: y_greater_def get_y_def)

lemma getDistance_Some [simp]:
  "getDistance (Some a) (Some b) = Some (sqrt ((lm_x a - lm_x b)\<^sup>2 + (lm_y a - lm_y b)\<^sup>2))"
  by (simp add: getDistance_def get_x_def get_y_def)

lemma predictWebcam_hand:
  assumes "21 \<le> length lm"
  shows "predictWebcam (Some (lm # hs)) s =
     Some (if three_shape lm then setGestureStatus THREE (setFocusTarget MOON s)
           else if two_shape lm then setGestureStatus TWO (setFocusTarget EARTH s)
           else if point_shape lm then point_update lm s
           else if open_shape lm then setGestureStatus OPEN (increaseZoom 0.015 s)
           else if pinch_dist lm < 0.05
             then setGestureStatus PINCH (decreaseZoom 0.015 (setFocusTarget NONE s))
           else setGestureStatus IDLE s)"
proof -
  have idx: "js_index lm 4 = Some (lm ! 4)" "js_index lm 8 = Some (lm ! 8)"
    "js_index lm 6 = Some (lm ! 6)" "js_index lm 12 = Some (lm ! 12)"
    "js_index lm 10 = Some (lm ! 10)" "js_index lm 16 = Some (lm ! 16)"
    "js_index lm 14 = Some (lm ! 14)" "js_index lm 20 = Some (lm ! 20)"
    "js_index lm 18 = Some (lm ! 18)"
    using assms by (simp_all add: js_index_Some)
  show ?thesis
    unfolding predictWebcam_def
    by (simp add: idx Let_def three_shape_def two_shape_def point_shape_def open_shape_def
        tip_above_def tip_below_def pinch_dist_def point_update_def get_x_def get_y_def)
qed

lemma predictWebcam_short:
  assumes "length lm < 21"
  shows "predictWebcam (Some (lm # hs)) s = None"
proof -
  have "js_index lm 20 = None" using assms by (simp add: js_index_None)
  then show ?thesis
    unfolding predictWebcam_def
    by (simp add: Let_def split: Option.bind_split)
qed

lemma isExtended_Some:
  assumes "t < length lm" "p < length lm"
  shows "isExtended lm t p = Some (tip_further lm t p)"
proof -
  have "lm \<noteq> []" using assms(1) by auto
  then have "js_index lm 0 = Some (lm ! 0)"
    by (simp add: js_index_def)
  then show ?thesis
    using assms
    by (simp add: isExtended_def js_index_Some Let_def get_x_def get_y_def tip_further_def
        wrist_dist2_def)
qed

lemma isExtended_None:
  assumes "length lm \<le> t"
  shows "isExtended lm t p = None"
  using assms
  by (simp add: isExtended_def js_index_None Let_def get_x_def get_y_def)

lemma predictWebcam_part_002_hand:
  assumes "21 \<le> length lm"
  shows "predictWebcam_part_002 (Some (lm # hs)) s =
     Some (if three_shape_002 lm then setGestureStatus THREE (setFocusTarget MOON s)
           else if two_shape_002 lm then setGestureStatus TWO (setFocusTarget EARTH s)
           else if point_shape_002 lm then point_update lm s
           else if open_shape_002 lm then setGestureStatus OPEN (increaseZoom 0.015 s)
           else if pinch_dist lm < 0.05
             then setGestureStatus PINCH (decreaseZoom 0.015 (setFocusTarget NONE s))
           else setGestureStatus IDLE s)"
proof -
  have idx: "js_index lm 4 = Some (lm ! 4)" "js_index lm 8 = Some (lm ! 8)"
    using assms by (simp_all add: js_index_Some)
  have ext: "isExtended lm 8 6 = Some (tip_further lm 8 6)"
    "isExtended lm 12 10 = Some (tip_further lm 12 10)"
    "isExtended lm 16 14 = Some (tip_further lm 16 14)"
    "isExtended lm 20 18 = Some (tip_further lm 20 18)"
    using assms by (simp_all add: isExtended_Some)
  show ?thesis
    unfolding predictWebcam_part_002_def
    by (simp add: idx ext Let_def three_shape_002_def two_shape_002_def point_shape_002_def
        open_shape_002_def pinch_dist_def point_update_def get_x_def get_y_def)
qed

lemma predictWebcam_part_002_short:
  assumes "length lm < 21"
  shows "predictWebcam_part_002 (Some (lm # hs)) s = None"
proof -
  have "isExtended lm 20 18 = None" using assms by (simp add: isExtended_None)
  then show ?thesis
    unfolding predictWebcam_part_002_def
    by (simp add: Let_def split: Option.bind_split)
qed

lemma hands_length:
  "length rest_hand = 21" "length three_hand = 21" "length point_pinch_hand = 21"
  "length level_middle_hand = 21" "length open_hand = 21" "length short_hand = 20"
  by (simp_all add: rest_hand_def three_hand_def point_pinch_hand_def level_middle_hand_def
      open_hand_def short_hand_def)

text \<open>The label \<open>predictWebcam\<close> writes last is the one it detected.\<close>

lemma gestureStatus_updates [simp]:
  "gestureStatus (setGestureStatus g s) = g"
  "gestureStatus (point_update lm s) = POINT"
  by (simp_all add: setGestureStatus_def point_update_def)

lemma predictWebcam_label:
  assumes "21 \<le> length lm"
  shows "map_option gestureStatus (predictWebcam (Some (lm # hs)) s) =
     Some (if three_shape lm then THREE else if two_shape lm then TWO
           else if point_shape lm then POINT else if open_shape lm then OPEN
           else if pinch_dist lm < 0.05 then PINCH else IDLE)"
  by (simp add: predictWebcam_hand [OF assms])

lemma predictWebcam_part_002_label:
  assumes "21 \<le> length lm"
  shows "map_option gestureStatus (predictWebcam_part_002 (Some (lm # hs)) s) =
     Some (if three_shape_002 lm then THREE else if two_shape_002 lm then TWO
           else if point_shape_002 lm then POINT else if open_shape_002 lm then OPEN
           else if pinch_dist lm < 0.05 then PINCH else IDLE)"
  by (simp add: predictWebcam_part_002_hand [OF assms])

lemma shapes_exclusive:
  "\<not> (three_shape lm \<and> two_shape lm)" "\<not> (three_shape_002 lm \<and> two_shape_002 lm)"
  by (auto simp: three_shape_def two_shape_def three_shape_002_def two_shape_002_def
      tip_above_def tip_below_def)

lemma point_not_higher:
  "point_shape lm \<Longrightarrow> \<not> three_shape lm \<and> \<not> two_shape lm"
  "point_shape_002 lm \<Longrightarrow> \<not> three_shape_002 lm \<and> \<not> two_shape_002 lm"
  by (auto simp: point_shape_def three_shape_def two_shape_def point_shape_002_def
      three_shape_002_def two_shape_002_def tip_above_def tip_below_def)

text \<open>The concrete hands, evaluated.\<close>

lemma three_hand_shapes: "three_shape three_hand" "three_shape_002 three_hand"
  by (simp_all add: three_shape_def three_shape_002_def tip_above_def tip_below_def
      tip_further_def wrist_dist2_def three_hand_def rest_hand_def pt_def power2_eq_square)

lemma point_pinch_hand_shapes:
  "point_shape point_pinch_hand" "point_shape_002 point_pinch_hand"
  "pinch_dist point_pinch_hand < 0.05"
  by (simp_all add: point_shape_def point_shape_002_def tip_above_def tip_below_def
      tip_further_def wrist_dist2_def pinch_dist_def point_pinch_hand_def rest_hand_def pt_def
      power2_eq_square)

lemma level_middle_hand_shapes:
  "tip_above level_middle_hand 8 6" "\<not> tip_above level_middle_hand 12 10"
  "\<not> tip_below level_middle_hand 12 10"
  "tip_below level_middle_hand 16 14" "tip_below level_middle_hand 20 18"
  "pinch_dist level_middle_hand < 0.05" "point_shape_002 level_middle_hand"
  by (simp_all add: point_shape_002_def tip_above_def tip_below_def
      tip_further_def wrist_dist2_def pinch_dist_def level_middle_hand_def rest_hand_def pt_def
      power2_eq_square)

text \<open>
  Claim C2, as stated, fails on components/HandTracker.tsx. The hand
  \<open>level_middle_hand\<close> has its index finger extended, none of its middle, ring and
  pinky fingers extended, and its thumb tip on its index tip; the middle fingertip is
  level with its PIP joint, which that version counts neither as extended nor as curled.
  No shape matches, and the frame is classified as PINCH, not POINT. (The second version
  classifies the same frame as POINT.)
\<close>

theorem level_finger_point_is_pinch:
  "tip_above level_middle_hand 8 6
   \<and> \<not> tip_above level_middle_hand 12 10
   \<and> \<not> tip_above level_middle_hand 16 14
   \<and> \<not> tip_above level_middle_hand 20 18
   \<and> pinch_dist level_middle_hand < 0.05
   \<and> map_option gestureStatus (predictWebcam (Some [level_middle_hand]) initialState)
       = Some PINCH
   \<and> map_option gestureStatus (predictWebcam_part_002 (Some [level_middle_hand]) initialState)
       = Some POINT"
proof -
  have len: "21 \<le> length level_middle_hand" by (simp add: hands_length)
  have no_shape: "\<not> three_shape level_middle_hand" "\<not> two_shape level_middle_hand"
    "\<not> point_shape level_middle_hand" "\<not> open_shape level_middle_hand"
    using level_middle_hand_shapes
    by (auto simp: three_shape_def two_shape_def point_shape_def open_shape_def
        tip_above_def tip_below_def)
  have up: "\<not> tip_above level_middle_hand 16 14" "\<not> tip_above level_middle_hand 20 18"
    using level_middle_hand_shapes(4,5) by (auto simp: tip_above_def tip_below_def)
  have a: "map_option gestureStatus (predictWebcam (Some [level_middle_hand]) initialState)
      = Some PINCH"
    using level_middle_hand_shapes(6) by (simp add: predictWebcam_label [OF len] no_shape)
  have b: "map_option gestureStatus
      (predictWebcam_part_002 (Some [level_middle_hand]) initialState) = Some POINT"
    using point_not_higher(2) [OF level_middle_hand_shapes(7)]
    by (simp add: predictWebcam_part_002_label [OF len] level_middle_hand_shapes(7))
  show ?thesis
    using level_middle_hand_shapes(1,2,6) up a b by simp
qed

text \<open>
  Claim C2, amended. For a hand with all 21 landmarks each version of the classifier
  produces exactly one label, the first rule that matches in the order THREE, TWO,
  POINT, OPEN, PINCH, IDLE, where a rule's shape is the one that version tests: in
  components/HandTracker.tsx a finger that must not be extended must be curled (its tip
  strictly below its PIP joint), in the second version it must fail the wrist-distance
  test. So every frame with THREE's shape is classified THREE (THREE's and TWO's shapes
  never hold together), and every frame with POINT's shape, pinch distance below 0.05
  included, is classified POINT, not PINCH.
\<close>

theorem gesture_rules_first_match_wins:
  assumes "21 \<le> length lm"
  shows "map_option gestureStatus (predictWebcam (Some (lm # hs)) s) =
      Some (if three_shape lm then THREE else if two_shape lm then TWO
            else if point_shape lm then POINT else if open_shape lm then OPEN
            else if pinch_dist lm < 0.05 then PINCH else IDLE)
    \<and> map_option gestureStatus (predictWebcam_part_002 (Some (lm # hs)) s) =
      Some (if three_shape_002 lm then THREE else if two_shape_002 lm then TWO
            else if point_shape_002 lm then POINT else if open_shape_002 lm then OPEN
            else if pinch_dist lm < 0.05 then PINCH else IDLE)
    \<and> (three_shape lm \<longrightarrow>
          map_option gestureStatus (predictWebcam (Some (lm # hs)) s) = Some THREE)
    \<and> (three_shape_002 lm \<longrightarrow>
          map_option gestureStatus (predictWebcam_part_002 (Some (lm # hs)) s) = Some THREE)
    \<and> \<not> (three_shape lm \<and> two_shape lm) \<and> \<not> (three_shape_002 lm \<and> two_shape_002 lm)
    \<and> (point_shape lm \<and> pinch_dist lm < 0.05 \<longrightarrow>
          map_option gestureStatus (predictWebcam (Some (lm # hs)) s) = Some POINT)
    \<and> (point_shape_002 lm \<and> pinch_dist lm < 0.05 \<longrightarrow>
          map_option gestureStatus (predictWebcam_part_002 (Some (lm # hs)) s) = Some POINT)"
  using point_not_higher [of lm] shapes_exclusive [of lm]
  by (simp add: predictWebcam_label [OF assms] predictWebcam_part_002_label [OF assms])

theorem gesture_rules_first_match_wins_witness:
  "21 \<le> length three_hand \<and> three_shape three_hand \<and> three_shape_002 three_hand
   \<and> map_option gestureStatus (predictWebcam (Some [three_hand]) initialState) = Some THREE
   \<and> map_option gestureStatus (predictWebcam_part_002 (Some [three_hand]) initialState)
       = Some THREE
   \<and> 21 \<le> length point_pinch_hand
   \<and> point_shape point_pinch_hand \<and> point_shape_002 point_pinch_hand
   \<and> pinch_dist point_pinch_hand < 0.05
   \<and> map_option gestureStatus (predictWebcam (Some [point_pinch_hand]) initialState)
       = Some POINT
   \<and> map_option gestureStatus (predictWebcam_part_002 (Some [point_pinch_hand]) initialState)
       = Some POINT"
proof -
  have l3: "21 \<le> length three_hand" and lp: "21 \<le> length point_pinch_hand"
    by (simp_all add: hands_length)
  show ?thesis
    using l3 lp three_hand_shapes point_pinch_hand_shapes
      gesture_rules_first_match_wins [OF l3, of "[]" initialState]
      gesture_rules_first_match_wins [OF lp, of "[]" initialState]
    by simp
qed



text \<open>
  Claim C4, as stated, fails: neither version checks how many landmarks a hand has. On
  \<open>short_hand\<close>, which has 20 landmarks, reading the missing pinky tip's coordinate
  raises a TypeError in both versions; no label is produced, IDLE or other.
\<close>

theorem short_hand_raises:
  "length short_hand < 21
   \<and> predictWebcam (Some [short_hand]) initialState = None
   \<and> predictWebcam_part_002 (Some [short_hand]) initialState = None
   \<and> predictWebcam (Some [short_hand]) initialState \<noteq> Some (setGestureStatus IDLE initialState)
   \<and> predictWebcam_part_002 (Some [short_hand]) initialState
       \<noteq> Some (setGestureStatus IDLE initialState)"
proof -
  have len: "length short_hand < 21" by (simp add: hands_length)
  show ?thesis
    using len by (simp add: predictWebcam_short [OF len] predictWebcam_part_002_short [OF len])
qed

text \<open>
  Claim C4, amended. When no hand is detected (the result has no landmarks array, or an
  empty one) both versions set the label to IDLE and raise nothing. For a hand with at
  least 21 landmarks both versions return normally with a label. For a hand with fewer
  than 21 landmarks both raise (a TypeError on reading a coordinate of a missing
  landmark) before any store update.
\<close>

theorem classification_raises_only_on_short_hands:
  "predictWebcam None s = Some (setGestureStatus IDLE s)
   \<and> predictWebcam (Some []) s = Some (setGestureStatus IDLE s)
   \<and> predictWebcam_part_002 None s = Some (setGestureStatus IDLE s)
   \<and> predictWebcam_part_002 (Some []) s = Some (setGestureStatus IDLE s)
   \<and> (21 \<le> length lm \<longrightarrow>
        (\<exists>s'. predictWebcam (Some (lm # hs)) s = Some s')
        \<and> (\<exists>s'. predictWebcam_part_002 (Some (lm # hs)) s = Some s'))
   \<and> (length lm < 21 \<longrightarrow>
        predictWebcam (Some (lm # hs)) s = None
        \<and> predictWebcam_part_002 (Some (lm # hs)) s = None)"
proof -
  have none: "predictWebcam None s = Some (setGestureStatus IDLE s)"
    "predictWebcam (Some []) s = Some (setGestureStatus IDLE s)"
    "predictWebcam_part_002 None s = Some (setGestureStatus IDLE s)"
    "predictWebcam_part_002 (Some []) s = Some (setGestureStatus IDLE s)"
    by (simp_all add: predictWebcam_def predictWebcam_part_002_def)
  show ?thesis
    using none predictWebcam_hand [of lm hs s] predictWebcam_part_002_hand [of lm hs s]
      predictWebcam_short [of lm hs s] predictWebcam_part_002_short [of lm hs s]
    by simp
qed

theorem classification_raises_only_on_short_hands_witness:
  "21 \<le> length open_hand
   \<and> (\<exists>s'. predictWebcam (Some [open_hand]) initialState = Some s')
   \<and> (\<exists>s'. predictWebcam_part_002 (Some [open_hand]) initialState = Some s')
   \<and> length short_hand < 21
   \<and> predictWebcam (Some [short_hand]) (setZoomLevel 0.5 initialState) = None
   \<and> predictWebcam_part_002 (Some [short_hand]) (setZoomLevel 0.5 initialState) = None"
proof -
  have lo: "21 \<le> length open_hand" and ls: "length short_hand < 21"
    by (simp_all add: hands_length)
  show ?thesis
    using lo ls
      classification_raises_only_on_short_hands [of initialState open_hand "[]"]
      classification_raises_only_on_short_hands [of "setZoomLevel 0.5 initialState" short_hand "[]"]
    by simp
qed



section \<open>Properties of the camera logic\<close>

lemma vec3_neq_by_vy: "vy a \<noteq> vy b \<Longrightarrow> a \<noteq> (b :: vec3)"
  by auto

text \<open>
  Claim C6, as stated, fails for the look-at point in the focused states. With
  focusTarget SATURN, at time 0, from the camera \<open>cam0\<close> (at (0, 20, 60), looking along
  -z), the callback looks straight at Saturn's position: the look-at point is the target
  itself, not the point 5% of the way from the camera's current look-at point (one unit
  ahead of the camera, taken from its new or from its old position) to the target.
\<close>

theorem focused_lookAt_is_not_smoothed:
  "lookAt_point (useFrame_camera SATURN 0.2 0 cam0) = orbit 5 42
   \<and> lookAt_point (useFrame_camera SATURN 0.2 0 cam0)
       \<noteq> Vector3_lerp
           (Vector3_add (forward cam0) (new_position (useFrame_camera SATURN 0.2 0 cam0)))
           (orbit 5 42) 0.05
   \<and> lookAt_point (useFrame_camera SATURN 0.2 0 cam0)
       \<noteq> Vector3_lerp (Vector3_add (forward cam0) (position cam0)) (orbit 5 42) 0.05"
proof -
  have a: "lookAt_point (useFrame_camera SATURN 0.2 0 cam0) = orbit 5 42"
    by (simp add: useFrame_camera_def Let_def orbit_def)
  have b: "orbit 5 42 \<noteq> Vector3_lerp
      (Vector3_add (forward cam0) (new_position (useFrame_camera SATURN 0.2 0 cam0)))
      (orbit 5 42) 0.05"
    by (rule vec3_neq_by_vy)
      (simp add: useFrame_camera_def Let_def orbit_def Vector3_lerp_def Vector3_add_def
        cam0_def)
  have c: "orbit 5 42
      \<noteq> Vector3_lerp (Vector3_add (forward cam0) (position cam0)) (orbit 5 42) 0.05"
    by (rule vec3_neq_by_vy)
      (simp add: orbit_def Vector3_lerp_def Vector3_add_def cam0_def)
  show ?thesis using a b c by simp
qed

text \<open>
  Claim C6, amended. On every tick, in every FocusTarget state, the camera position
  advances toward that state's target position by exponential smoothing at rate 0.05
  (position += (target - position) * 0.05). The look-at point is smoothed at that rate
  only when FocusTarget is NONE, from the point one unit ahead of the moved camera
  toward the origin; in the states SATURN, EARTH and MOON the camera looks directly at
  the body's position, with no smoothing.
\<close>

theorem camera_position_smoothed_in_every_state:
  "new_position (useFrame_camera SATURN z t cam) =
      Vector3_lerp (position cam)
        (Vector3_add (orbit (t * 0.4 * 0.2 + 5) 42) \<lparr>vx = 5, vy = 4, vz = 9\<rparr>) 0.05
   \<and> lookAt_point (useFrame_camera SATURN z t cam) = orbit (t * 0.4 * 0.2 + 5) 42
   \<and> new_position (useFrame_camera EARTH z t cam) =
      Vector3_lerp (position cam)
        (Vector3_add (orbit (t * 1.0 * 0.2 + 2) 18) \<lparr>vx = 2, vy = 1, vz = 4\<rparr>) 0.05
   \<and> lookAt_point (useFrame_camera EARTH z t cam) = orbit (t * 1.0 * 0.2 + 2) 18
   \<and> new_position (useFrame_camera MOON z t cam) =
      Vector3_lerp (position cam)
        (Vector3_add (Vector3_add (orbit (t * 1.0 * 0.2 + 2) 18) (orbit (t * 0.5) 3.5))
          \<lparr>vx = 1, vy = 0.5, vz = 2\<rparr>) 0.05
   \<and> lookAt_point (useFrame_camera MOON z t cam) =
      Vector3_add (orbit (t * 1.0 * 0.2 + 2) 18) (orbit (t * 0.5) 3.5)
   \<and> new_position (useFrame_camera NONE z t cam) =
      Vector3_lerp (position cam)
        \<lparr>vx = 0, vy = 20,
         vz = (if z < 0 then 60 + (\<bar>z\<bar> / 0.5) * 30 else MathUtils_lerp 60 4 z)\<rparr> 0.05
   \<and> lookAt_point (useFrame_camera NONE z t cam) =
      Vector3_lerp (Vector3_add (forward cam) (new_position (useFrame_camera NONE z t cam)))
        \<lparr>vx = 0, vy = 0, vz = 0\<rparr> 0.05
   \<and> Vector3_lerp a v 0.05 =
      \<lparr>vx = vx a + (vx v - vx a) * 0.05, vy = vy a + (vy v - vy a) * 0.05,
       vz = vz a + (vz v - vz a) * 0.05\<rparr>"
proof -
  have focused:
    "useFrame_camera SATURN z t cam =
       \<lparr>new_position = Vector3_lerp (position cam)
          (Vector3_add (orbit (t * 0.4 * 0.2 + 5) 42) \<lparr>vx = 5, vy = 4, vz = 9\<rparr>) 0.05,
        lookAt_point = orbit (t * 0.4 * 0.2 + 5) 42\<rparr>"
    "useFrame_camera EARTH z t cam =
       \<lparr>new_position = Vector3_lerp (position cam)
          (Vector3_add (orbit (t * 1.0 * 0.2 + 2) 18) \<lparr>vx = 2, vy = 1, vz = 4\<rparr>) 0.05,
        lookAt_point = orbit (t * 1.0 * 0.2 + 2) 18\<rparr>"
    "useFrame_camera MOON z t cam =
       \<lparr>new_position = Vector3_lerp (position cam)
          (Vector3_add (Vector3_add (orbit (t * 1.0 * 0.2 + 2) 18) (orbit (t * 0.5) 3.5))
            \<lparr>vx = 1, vy = 0.5, vz = 2\<rparr>) 0.05,
        lookAt_point = Vector3_add (orbit (t * 1.0 * 0.2 + 2) 18) (orbit (t * 0.5) 3.5)\<rparr>"
    by (simp_all add: useFrame_camera_def Let_def orbit_def Vector3_add_def)
  have unfocused:
    "useFrame_camera NONE z t cam =
       \<lparr>new_position = Vector3_lerp (position cam)
          \<lparr>vx = 0, vy = 20,
           vz = (if z < 0 then 60 + (\<bar>z\<bar> / 0.5) * 30 else MathUtils_lerp 60 4 z)\<rparr> 0.05,
        lookAt_point = Vector3_lerp
          (Vector3_add (forward cam)
            (Vector3_lerp (position cam)
              \<lparr>vx = 0, vy = 20,
               vz = (if z < 0 then 60 + (\<bar>z\<bar> / 0.5) * 30 else MathUtils_lerp 60 4 z)\<rparr> 0.05))
          \<lparr>vx = 0, vy = 0, vz = 0\<rparr> 0.05\<rparr>"
    unfolding useFrame_camera_def Let_def by simp
  have step: "Vector3_lerp a v 0.05 =
      \<lparr>vx = vx a + (vx v - vx a) * 0.05, vy = vy a + (vy v - vy a) * 0.05,
       vz = vz a + (vz v - vz a) * 0.05\<rparr>"
    by (simp add: Vector3_lerp_def)
  show ?thesis
    unfolding focused unfocused camera_step.simps using step by simp
qed

text \<open>
  Claim C7. When FocusTarget is NONE the target camera position is (0, 20, d), where the
  distance d depends on ZoomLevel alone (not on the time or on the camera): for
  ZoomLevel < 0 it is 60 + 60 * |ZoomLevel|, growing linearly beyond the base distance
  60; for ZoomLevel >= 0 it is 60 - 56 * ZoomLevel, falling linearly from the base
  distance 60 at 0 to the minimum distance 4 at 1. At ZoomLevel = 0 it is exactly 60.
\<close>

theorem unfocused_target_distance_from_zoom:
  "new_position (useFrame_camera NONE z t cam) =
      Vector3_lerp (position cam)
        \<lparr>vx = 0, vy = 20, vz = (if z < 0 then 60 + 60 * \<bar>z\<bar> else 60 - 56 * z)\<rparr> 0.05
   \<and> new_position (useFrame_camera NONE 0 t cam) =
      Vector3_lerp (position cam) \<lparr>vx = 0, vy = 20, vz = 60\<rparr> 0.05
   \<and> new_position (useFrame_camera NONE 1 t cam) =
      Vector3_lerp (position cam) \<lparr>vx = 0, vy = 20, vz = 4\<rparr> 0.05
   \<and> new_position (useFrame_camera NONE (- 0.5) t cam) =
      Vector3_lerp (position cam) \<lparr>vx = 0, vy = 20, vz = 90\<rparr> 0.05"
  by (simp add: useFrame_camera_def Let_def MathUtils_lerp_def)

text \<open>
  Claim C8. When FocusTarget is MOON, at every time t the target camera position is
  Earth's orbital position at t (the point the EARTH state looks at) plus the moon's own
  orbital offset around it at t (radius 3.5, angle 0.5 * t) plus the fixed camera offset
  (1, 0.5, 2); the look-at point is the moon's absolute position, Earth's position plus
  the moon's offset, with no camera offset. Both orbits are read off the same clock
  value.
\<close>

theorem moon_target_is_parent_orbit_plus_moon_orbit:
  "new_position (useFrame_camera MOON z t cam) =
      Vector3_lerp (position cam)
        (Vector3_add
          (Vector3_add (lookAt_point (useFrame_camera EARTH z t cam)) (orbit (t * 0.5) 3.5))
          \<lparr>vx = 1, vy = 0.5, vz = 2\<rparr>) 0.05
   \<and> lookAt_point (useFrame_camera MOON z t cam) =
      Vector3_add (lookAt_point (useFrame_camera EARTH z t cam)) (orbit (t * 0.5) 3.5)
   \<and> lookAt_point (useFrame_camera EARTH z t cam) = orbit (t * 1.0 * 0.2 + 2) 18"
  by (simp add: useFrame_camera_def Let_def orbit_def Vector3_add_def)

end
